theory Spec2Isabelle
  imports Main
begin

section \<open>Radio Beta generator: embedding of \<^verbatim>\<open>main.py\<close>\<close>

text \<open>
  The module keeps two process-wide variables, \<^verbatim>\<open>is_radio_playing\<close> (initially \<^verbatim>\<open>True\<close>)
  and \<^verbatim>\<open>last_listeners\<close> (initially \<^verbatim>\<open>0\<close>). They are threaded explicitly through the two
  operations that touch them, \<^verbatim>\<open>now_playing\<close> and \<^verbatim>\<open>generate_listeners_stats\<close>.
  Everything the module obtains from outside (the browser, the HTTP request, the clock, the
  random generator) is an explicit input of the operation that asks for it.
\<close>

subsection \<open>Python values\<close>

text \<open>A Python \<^verbatim>\<open>str\<close> is a sequence of Unicode code points.\<close>

type_synonym pystr = "nat list"

definition lit :: "string \<Rightarrow> pystr" where
  "lit s = map of_char s"

text \<open>The exceptions that the library calls of the module can raise.\<close>

datatype py_exc = ValueError | OverflowError | UnicodeEncodeError

text \<open>
  The Selenium exceptions. \<^verbatim>\<open>TimeoutException\<close> and \<^verbatim>\<open>NoSuchElementException\<close> are subclasses
  of \<^verbatim>\<open>WebDriverException\<close>, so \<^verbatim>\<open>except (TimeoutException, WebDriverException)\<close> catches
  every value of this type.
\<close>

datatype selenium_exc = TimeoutException | NoSuchElementException | WebDriverException

definition bind_exc :: "'e + 'a \<Rightarrow> ('a \<Rightarrow> 'e + 'b) \<Rightarrow> 'e + 'b" where
  "bind_exc m f = (case m of Inl e \<Rightarrow> Inl e | Inr x \<Rightarrow> f x)"

text \<open>A UTC instant (\<^verbatim>\<open>datetime.now(timezone.utc)\<close>), in microseconds.\<close>

type_synonym instant = int

subsection \<open>Shared state\<close>

record state =
  is_radio_playing :: bool
  last_listeners :: int

definition initial_state :: state where
  "initial_state = \<lparr>is_radio_playing = True, last_listeners = 0\<rparr>"

subsection \<open>Binary floating point, as far as \<^verbatim>\<open>int((max_base - min_base) * 0.15)\<close> needs it\<close>

text \<open>
  A finite double is kept exactly, as \<open>(-1)^neg * num / 2^frac\<close>. \<open>round53\<close> rounds a
  natural number to 53 significant bits, ties to even, which is what both the conversion of an
  \<^verbatim>\<open>int\<close> to a \<^verbatim>\<open>float\<close> and the multiplication of two doubles do to the exact result.
\<close>

record pyfloat =
  neg :: bool
  num :: nat
  frac :: nat

fun bitlen :: "nat \<Rightarrow> nat" where
  "bitlen n = (if n = 0 then 0 else Suc (bitlen (n div 2)))"

declare bitlen.simps [simp del]

definition round53 :: "nat \<Rightarrow> nat" where
  "round53 n =
     (if bitlen n \<le> 53 then n
      else let s = bitlen n - 53;
               q = n div 2 ^ s;
               r = n mod 2 ^ s;
               h = 2 ^ (s - 1)
           in (if h < r \<or> (r = h \<and> odd q) then q + 1 else q) * 2 ^ s)"

text \<open>\<^verbatim>\<open>int.__float__\<close>: rounds, and raises \<^verbatim>\<open>OverflowError\<close> beyond the largest double.\<close>

definition float_of_int :: "int \<Rightarrow> py_exc + pyfloat" where
  "float_of_int i =
     (let m = round53 (nat \<bar>i\<bar>)
      in if 2 ^ 1024 \<le> m then Inl OverflowError
         else Inr \<lparr>neg = (i < 0), num = m, frac = 0\<rparr>)"

text \<open>The literal \<^verbatim>\<open>0.15\<close> is the double \<^verbatim>\<open>0x1.3333333333333p-3\<close>.\<close>

definition float_0_15 :: pyfloat where
  "float_0_15 = \<lparr>neg = False, num = 5404319552844595, frac = 55\<rparr>"

text \<open>
  Multiplication of doubles. The product of an integer-valued double and \<^verbatim>\<open>0.15\<close> neither
  overflows nor becomes subnormal, so rounding the exact product is all that happens.
\<close>

definition float_mul :: "pyfloat \<Rightarrow> pyfloat \<Rightarrow> pyfloat" where
  "float_mul x y =
     \<lparr>neg = (neg x \<noteq> neg y), num = round53 (num x * num y), frac = frac x + frac y\<rparr>"

text \<open>\<^verbatim>\<open>int(x)\<close> of a finite double truncates towards zero.\<close>

definition int_of_float :: "pyfloat \<Rightarrow> int" where
  "int_of_float x =
     (let t = int (num x div 2 ^ frac x) in if neg x then - t else t)"

subsection \<open>Listener simulator\<close>

record listener_stats =
  listeners :: int
  stats_timestamp :: instant

text \<open>
  What one call of \<^verbatim>\<open>generate_listeners_stats\<close> reads from outside: the UTC clock, the hour of
  \<^verbatim>\<open>datetime.now(LOCAL_TZ)\<close>, and the random generator. \<open>rand a b\<close> is the number that the
  generator hands back for the one \<^verbatim>\<open>random.randint(a, b)\<close> of this call; nothing is assumed
  about it here.
\<close>

record tick_env =
  now_utc :: instant
  local_hour :: int
  rand :: "int \<Rightarrow> int \<Rightarrow> int"

text \<open>\<^verbatim>\<open>random.randint(a, b)\<close> raises \<^verbatim>\<open>ValueError\<close> on an empty range.\<close>

definition randint :: "tick_env \<Rightarrow> int \<Rightarrow> int \<Rightarrow> py_exc + int" where
  "randint env a b = (if b < a then Inl ValueError else Inr (rand env a b))"

definition get_hourly_base_range :: "int \<Rightarrow> int \<times> int" where
  "get_hourly_base_range hour =
     (if 0 \<le> hour \<and> hour \<le> 5 then (10, 40)
      else if 6 \<le> hour \<and> hour \<le> 8 then (100, 150)
      else if 9 \<le> hour \<and> hour \<le> 11 then (80, 130)
      else if 12 \<le> hour \<and> hour \<le> 14 then (70, 110)
      else if 15 \<le> hour \<and> hour \<le> 18 then (120, 180)
      else if 19 \<le> hour \<and> hour \<le> 22 then (50, 90)
      else if hour = 23 then (30, 60)
      else (50, 80))"

text \<open>\<^verbatim>\<open>max_change = int((max_base - min_base) * 0.15) + 2\<close>\<close>

definition max_change_of :: "int \<Rightarrow> int \<Rightarrow> py_exc + int" where
  "max_change_of min_base max_base =
     bind_exc (float_of_int (max_base - min_base))
       (\<lambda>w. Inr (int_of_float (float_mul w float_0_15) + 2))"

text \<open>The \<^verbatim>\<open>if last_listeners == 0: ... else: ...\<close> of the playing branch.\<close>

definition sample_listeners :: "tick_env \<Rightarrow> int \<Rightarrow> int \<Rightarrow> int \<Rightarrow> py_exc + int" where
  "sample_listeners env last_l min_base max_base =
     (if last_l = 0 then randint env min_base max_base
      else bind_exc (max_change_of min_base max_base)
             (\<lambda>max_change. bind_exc (randint env (- max_change) max_change)
                (\<lambda>change. Inr (last_l + change))))"

definition generate_listeners_stats :: "tick_env \<Rightarrow> state \<Rightarrow> py_exc + listener_stats \<times> state" where
  "generate_listeners_stats env st =
     (let ts_utc = now_utc env in
      if \<not> is_radio_playing st then
        Inr (\<lparr>listeners = 0, stats_timestamp = ts_utc\<rparr>, st\<lparr>last_listeners := 0\<rparr>)
      else
        let current_hour = local_hour env;
            (min_base, max_base) = get_hourly_base_range current_hour
        in bind_exc (sample_listeners env (last_listeners st) min_base max_base)
             (\<lambda>new_listeners.
                let new_listeners = max min_base (min new_listeners max_base)
                in Inr (\<lparr>listeners = new_listeners, stats_timestamp = ts_utc\<rparr>,
                        st\<lparr>last_listeners := new_listeners\<rparr>)))"

subsection \<open>Strings\<close>

text \<open>
  \<^verbatim>\<open>str.strip()\<close> and \<^verbatim>\<open>str.split()\<close> without arguments work on the code points for which
  \<^verbatim>\<open>str.isspace\<close> holds.
\<close>

definition py_isspace :: "nat \<Rightarrow> bool" where
  "py_isspace c \<longleftrightarrow>
     (9 \<le> c \<and> c \<le> 13) \<or> (28 \<le> c \<and> c \<le> 32) \<or> c = 133 \<or> c = 160 \<or> c = 5760 \<or>
     (8192 \<le> c \<and> c \<le> 8202) \<or> c = 8232 \<or> c = 8233 \<or> c = 8239 \<or> c = 8287 \<or> c = 12288"

definition strip_with :: "(nat \<Rightarrow> bool) \<Rightarrow> pystr \<Rightarrow> pystr" where
  "strip_with sp s = rev (dropWhile sp (rev (dropWhile sp s)))"

definition strip :: "pystr \<Rightarrow> pystr" where
  "strip s = strip_with py_isspace s"

text \<open>\<^verbatim>\<open>s.split()\<close>: the maximal runs of non-space code points. \<open>cur\<close> is the run being read.\<close>

fun split_run :: "pystr \<Rightarrow> pystr \<Rightarrow> pystr list" where
  "split_run cur [] = (if cur = [] then [] else [cur])"
| "split_run cur (c # cs) =
     (if py_isspace c then (if cur = [] then split_run [] cs else cur # split_run [] cs)
      else split_run (cur @ [c]) cs)"

definition split_ws :: "pystr \<Rightarrow> pystr list" where
  "split_ws s = split_run [] s"

text \<open>\<^verbatim>\<open>s.split(sep)\<close> for a separator of one code point; empty pieces are kept.\<close>

fun split_piece :: "nat \<Rightarrow> pystr \<Rightarrow> pystr \<Rightarrow> pystr list" where
  "split_piece sep cur [] = [cur]"
| "split_piece sep cur (c # cs) =
     (if c = sep then cur # split_piece sep [] cs else split_piece sep (cur @ [c]) cs)"

definition split_on :: "nat \<Rightarrow> pystr \<Rightarrow> pystr list" where
  "split_on sep s = split_piece sep [] s"

fun join :: "pystr \<Rightarrow> pystr list \<Rightarrow> pystr" where
  "join sep [] = []"
| "join sep [x] = x"
| "join sep (x # y # ys) = x @ sep @ join sep (y # ys)"

text \<open>
  The parts of the Python runtime that depend on the Unicode character database of the
  interpreter are parameters: \<^verbatim>\<open>str.lower\<close>, \<^verbatim>\<open>str.casefold\<close>, the decimal value of a
  non-ASCII digit, and the limit \<^verbatim>\<open>sys.get_int_max_str_digits()\<close> (\<open>0\<close> for none).
\<close>

record py_runtime =
  str_lower :: "pystr \<Rightarrow> pystr"
  str_casefold :: "pystr \<Rightarrow> pystr"
  unicode_decimal :: "nat \<Rightarrow> nat option"
  int_max_str_digits :: nat

text \<open>
  A runtime for running examples: it maps \<^verbatim>\<open>A\<close>-\<^verbatim>\<open>Z\<close> to \<^verbatim>\<open>a\<close>-\<^verbatim>\<open>z\<close> and leaves every other code
  point alone, which is what \<^verbatim>\<open>str.lower\<close> and \<^verbatim>\<open>str.casefold\<close> do on ASCII text and on the
  lower-case letters of the silence phrases; it knows no digit beyond ASCII.
\<close>

definition ascii_lower :: "pystr \<Rightarrow> pystr" where
  "ascii_lower s = map (\<lambda>c. if 65 \<le> c \<and> c \<le> 90 then c + 32 else c) s"

definition ascii_runtime :: py_runtime where
  "ascii_runtime =
     \<lparr>str_lower = ascii_lower, str_casefold = ascii_lower,
      unicode_decimal = (\<lambda>c. None), int_max_str_digits = 4300\<rparr>"

text \<open>
  A second runtime for examples, which also knows the long s, U+017F (code point \<open>383\<close>):
  \<^verbatim>\<open>str.lower\<close> leaves it alone, as it is a lower-case letter, and \<^verbatim>\<open>str.casefold\<close> maps it
  to \<^verbatim>\<open>s\<close>.
\<close>

definition long_s_casefold :: "pystr \<Rightarrow> pystr" where
  "long_s_casefold s = map (\<lambda>c. if c = 383 then 115 else c) (ascii_lower s)"

definition long_s_runtime :: py_runtime where
  "long_s_runtime =
     \<lparr>str_lower = ascii_lower, str_casefold = long_s_casefold,
      unicode_decimal = (\<lambda>c. None), int_max_str_digits = 4300\<rparr>"

subsection \<open>\<^verbatim>\<open>int(str)\<close> and \<^verbatim>\<open>time(hour, minute, tzinfo=...)\<close>\<close>

text \<open>
  \<^verbatim>\<open>int(s)\<close> in base 10: surrounding white space, an optional sign, then digits with single
  underscores between them. The separators \<^verbatim>\<open>\x1c\<close>-\<^verbatim>\<open>\x1f\<close>, which \<^verbatim>\<open>strip\<close> removes, are
  not white space for \<^verbatim>\<open>int\<close>. A code point below 127 is a digit only if it is \<^verbatim>\<open>0\<close>-\<^verbatim>\<open>9\<close>.
\<close>

definition int_isspace :: "nat \<Rightarrow> bool" where
  "int_isspace c \<longleftrightarrow> py_isspace c \<and> \<not> (28 \<le> c \<and> c \<le> 31)"

definition digit_of :: "py_runtime \<Rightarrow> nat \<Rightarrow> nat option" where
  "digit_of R c =
     (if c < 127 then (if 48 \<le> c \<and> c \<le> 57 then Some (c - 48) else None)
      else unicode_decimal R c)"

text \<open>
  \<open>parse_digits R cs prev acc n\<close>: \<open>prev\<close> says that the previous code point was a digit,
  \<open>acc\<close> is the value read so far and \<open>n\<close> the number of digits read.
\<close>

fun parse_digits :: "py_runtime \<Rightarrow> pystr \<Rightarrow> bool \<Rightarrow> int \<Rightarrow> nat \<Rightarrow> (int \<times> nat) option" where
  "parse_digits R [] prev acc n = (if prev then Some (acc, n) else None)"
| "parse_digits R (c # cs) prev acc n =
     (if c = 95 then (if prev then parse_digits R cs False acc n else None)
      else case digit_of R c of
             None \<Rightarrow> None
           | Some d \<Rightarrow> parse_digits R cs True (10 * acc + int d) (Suc n))"

definition py_int :: "py_runtime \<Rightarrow> pystr \<Rightarrow> py_exc + int" where
  "py_int R s =
     (let t = strip_with int_isspace s;
          (sgn, body) = (case t of
                           [] \<Rightarrow> (1, t)
                         | c # r \<Rightarrow> if c = 45 then (- 1, r) else if c = 43 then (1, r) else (1, t))
      in case parse_digits R body False 0 0 of
           None \<Rightarrow> Inl ValueError
         | Some (v, n) \<Rightarrow>
             if 640 < n \<and> 0 < int_max_str_digits R \<and> int_max_str_digits R < n
             then Inl ValueError
             else Inr (sgn * v))"

datatype zone_info = ZoneInfo string

definition LOCAL_TZ :: zone_info where
  "LOCAL_TZ = ZoneInfo ''Europe/Bratislava''"

record py_time =
  t_hour :: int
  t_minute :: int
  t_second :: int
  t_microsecond :: int
  t_tzinfo :: "zone_info option"
  t_fold :: int

text \<open>
  \<^verbatim>\<open>time(h, m, tzinfo=tz)\<close>: an argument that does not fit a C \<^verbatim>\<open>int\<close> raises
  \<^verbatim>\<open>OverflowError\<close>, one outside its range raises \<^verbatim>\<open>ValueError\<close>.
\<close>

definition time_of :: "int \<Rightarrow> int \<Rightarrow> zone_info \<Rightarrow> py_exc + py_time" where
  "time_of h m tz =
     (if h < - (2 ^ 31) \<or> 2 ^ 31 \<le> h \<or> m < - (2 ^ 31) \<or> 2 ^ 31 \<le> m then Inl OverflowError
      else if h < 0 \<or> 23 < h then Inl ValueError
      else if m < 0 \<or> 59 < m then Inl ValueError
      else Inr \<lparr>t_hour = h, t_minute = m, t_second = 0, t_microsecond = 0,
                t_tzinfo = Some tz, t_fold = 0\<rparr>)"

subsection \<open>The on-air block of the rendered page\<close>

text \<open>
  What Selenium shows of the page: the element matched by
  \<^verbatim>\<open>//div[contains(@class, 'radio_profil_play')]\<close> if it appears within the wait, and inside it
  the \<^verbatim>\<open>.text\<close> of the first \<^verbatim>\<open>span\<close> of class \<^verbatim>\<open>interpret\<close> and of class \<^verbatim>\<open>titul\<close>, where there
  is one.
\<close>

record onair_block =
  interpret_el :: "pystr option"
  titul_el :: "pystr option"

type_synonym page = "onair_block option"

record onair =
  interpreters :: pystr
  title :: pystr

text \<open>
  The two phrases of the source, with \<open>225\<close>, \<open>382\<close> and \<open>269\<close> for the code points U+00E1,
  U+017E and U+010D (a with acute, z with caron, c with caron).
\<close>

definition silence_patterns :: "pystr set" where
  "silence_patterns =
     {lit ''nehr'' @ [225] @ lit '' '' @ [382] @ lit ''iadna pesni'' @ [269] @ lit ''ka'',
      lit ''je do'' @ [269] @ lit ''asne nedostupn'' @ [225]}"

text \<open>
  \<^verbatim>\<open>wait.until\<close> raises \<^verbatim>\<open>TimeoutException\<close> when the block does not appear; it stands before
  the \<^verbatim>\<open>try\<close>, so the exception leaves the function. A missing \<^verbatim>\<open>span\<close> raises
  \<^verbatim>\<open>NoSuchElementException\<close> inside the \<^verbatim>\<open>try\<close>, which returns \<^verbatim>\<open>None\<close>.
\<close>

definition scrape_onair_dynamic :: "py_runtime \<Rightarrow> page \<Rightarrow> selenium_exc + onair option" where
  "scrape_onair_dynamic R driver =
     (case driver of
        None \<Rightarrow> Inl TimeoutException
      | Some onair_block \<Rightarrow>
          (case interpret_el onair_block of
             None \<Rightarrow> Inr None
           | Some interpret_text \<Rightarrow>
               (case titul_el onair_block of
                  None \<Rightarrow> Inr None
                | Some titul_text \<Rightarrow>
                    let interpret_txt = strip interpret_text;
                        titul_txt = strip titul_text;
                        t_norm = join (lit '' '') (split_ws (str_lower R titul_txt))
                    in if t_norm \<in> silence_patterns \<or> interpret_txt = [] \<or> titul_txt = []
                       then Inr None
                       else Inr (Some \<lparr>interpreters = interpret_txt, title = titul_txt\<rparr>))))"

subsection \<open>The playlist table of the static document\<close>

text \<open>
  What BeautifulSoup shows of the document: the \<^verbatim>\<open>div\<close> with id \<^verbatim>\<open>playlist_table\<close> if there is
  one, as the list of its \<^verbatim>\<open>a.datum_cas_skladba\<close> rows in document order. Of a row the code reads
  \<^verbatim>\<open>get_text(strip=True)\<close> of its \<^verbatim>\<open>span.cas\<close> and \<^verbatim>\<open>get_text()\<close> of its \<^verbatim>\<open>span.interpret\<close> and
  \<^verbatim>\<open>span.titul\<close>; a field is \<open>None\<close> when the row has no such \<^verbatim>\<open>span\<close>.
\<close>

record row =
  time_span :: "pystr option"
  artist_span :: "pystr option"
  title_span :: "pystr option"

record soup =
  playlist_table :: "row list option"

text \<open>\<^verbatim>\<open>norm = lambda s: " ".join((s or "").strip().casefold().split())\<close>\<close>

definition norm :: "py_runtime \<Rightarrow> pystr \<Rightarrow> pystr" where
  "norm R s = join (lit '' '') (split_ws (str_casefold R (strip s)))"

text \<open>The body of the \<^verbatim>\<open>try\<close>: unpacking anything but two pieces raises \<^verbatim>\<open>ValueError\<close>.\<close>

definition parse_start_time :: "py_runtime \<Rightarrow> pystr \<Rightarrow> py_exc + py_time" where
  "parse_start_time R txt =
     (case take 2 (split_on 58 txt) of
        [hh, mm] \<Rightarrow>
          bind_exc (py_int R hh) (\<lambda>h. bind_exc (py_int R mm) (\<lambda>m. time_of h m LOCAL_TZ))
      | _ \<Rightarrow> Inl ValueError)"

text \<open>The \<^verbatim>\<open>for\<close> loop; leaving it without a match returns \<^verbatim>\<open>None\<close>.\<close>

fun scan_rows :: "py_runtime \<Rightarrow> pystr \<Rightarrow> pystr \<Rightarrow> row list \<Rightarrow> py_time option" where
  "scan_rows R n_artist n_title [] = None"
| "scan_rows R n_artist n_title (r # rest) =
     (case time_span r of
        None \<Rightarrow> scan_rows R n_artist n_title rest
      | Some time_text \<Rightarrow>
          (case artist_span r of
             None \<Rightarrow> scan_rows R n_artist n_title rest
           | Some artist_text \<Rightarrow>
               (case title_span r of
                  None \<Rightarrow> scan_rows R n_artist n_title rest
                | Some title_text \<Rightarrow>
                    if norm R artist_text = n_artist \<and> norm R title_text = n_title
                    then (case parse_start_time R time_text of
                            Inl e \<Rightarrow> None
                          | Inr t \<Rightarrow> Some t)
                    else scan_rows R n_artist n_title rest)))"

definition try_get_start_time_from_playlist ::
    "py_runtime \<Rightarrow> soup \<Rightarrow> pystr \<Rightarrow> pystr \<Rightarrow> py_time option" where
  "try_get_start_time_from_playlist R sp artist title_arg =
     (case playlist_table sp of
        None \<Rightarrow> None
      | Some song_rows \<Rightarrow>
          if song_rows = [] then None
          else scan_rows R (norm R artist) (norm R title_arg) (take 5 song_rows))"

subsection \<open>The log lines of the playlist resolver\<close>

text \<open>
  \<open>scan_rows\<close> and \<open>try_get_start_time_from_playlist\<close> above give the value that the function
  returns once its log lines are written. The function writes two: the \<^verbatim>\<open>print\<close> in the
  \<^verbatim>\<open>except\<close> handler, which formats the time text of the row and \<^verbatim>\<open>str(e)\<close>, and the \<^verbatim>\<open>print\<close>
  after the loop, of a fixed ASCII text. \<^verbatim>\<open>print(s)\<close> raises \<^verbatim>\<open>UnicodeEncodeError\<close> when \<open>s\<close> has a
  code point that the encoding of \<^verbatim>\<open>sys.stdout\<close> cannot write; an exception raised inside an
  \<^verbatim>\<open>except\<close> handler leaves the function. Of \<^verbatim>\<open>sys.stdout\<close> the model keeps the code points
  beyond ASCII that it can write, and \<open>exc_str\<close> is \<^verbatim>\<open>str(e)\<close> for the exception and the time text
  it was raised on.
\<close>

record log_env =
  stdout_writes :: "nat \<Rightarrow> bool"
  exc_str :: "py_exc \<Rightarrow> pystr \<Rightarrow> pystr"


definition py_print :: "log_env \<Rightarrow> pystr \<Rightarrow> py_exc + unit" where
  "py_print L s =
     (if list_all (\<lambda>c. c < 128 \<or> stdout_writes L c) s then Inr ()
      else Inl UnicodeEncodeError)"

text \<open>\<^verbatim>\<open>f"Error parsing time '{time_span.get_text(strip=True)}': {e}"\<close>; \<open>39\<close> is the quote.\<close>

definition parse_error_line :: "log_env \<Rightarrow> pystr \<Rightarrow> py_exc \<Rightarrow> pystr" where
  "parse_error_line L time_text e =
     lit ''Error parsing time '' @ [39] @ time_text @ [39] @ lit '': '' @ exc_str L e time_text"

definition no_match_line :: pystr where
  "no_match_line =
     lit ''WARNING: Exact match for the current song not found in the playlist table.''"

fun scan_rows_logged ::
    "py_runtime \<Rightarrow> log_env \<Rightarrow> pystr \<Rightarrow> pystr \<Rightarrow> row list \<Rightarrow> py_exc + py_time option" where
  "scan_rows_logged R L n_artist n_title [] =
     bind_exc (py_print L no_match_line) (\<lambda>u. Inr None)"
| "scan_rows_logged R L n_artist n_title (r # rest) =
     (case time_span r of
        None \<Rightarrow> scan_rows_logged R L n_artist n_title rest
      | Some time_text \<Rightarrow>
          (case artist_span r of
             None \<Rightarrow> scan_rows_logged R L n_artist n_title rest
           | Some artist_text \<Rightarrow>
               (case title_span r of
                  None \<Rightarrow> scan_rows_logged R L n_artist n_title rest
                | Some title_text \<Rightarrow>
                    if norm R artist_text = n_artist \<and> norm R title_text = n_title
                    then (case parse_start_time R time_text of
                            Inl e \<Rightarrow>
                              bind_exc (py_print L (parse_error_line L time_text e))
                                (\<lambda>u. Inr None)
                          | Inr t \<Rightarrow> Inr (Some t))
                    else scan_rows_logged R L n_artist n_title rest)))"

definition try_get_start_time_from_playlist_logged ::
    "py_runtime \<Rightarrow> log_env \<Rightarrow> soup \<Rightarrow> pystr \<Rightarrow> pystr \<Rightarrow> py_exc + py_time option" where
  "try_get_start_time_from_playlist_logged R L sp artist title_arg =
     (case playlist_table sp of
        None \<Rightarrow> Inr None
      | Some song_rows \<Rightarrow>
          if song_rows = [] then Inr None
          else scan_rows_logged R L (norm R artist) (norm R title_arg) (take 5 song_rows))"

subsection \<open>The endpoint \<^verbatim>\<open>/now-playing\<close>\<close>

datatype http_outcome = RequestException | Response soup

definition fetch_html_static :: "http_outcome \<Rightarrow> soup option" where
  "fetch_html_static res = (case res of RequestException \<Rightarrow> None | Response sp \<Rightarrow> Some sp)"

definition RADIO_NAME :: pystr where
  "RADIO_NAME = lit ''Beta''"

datatype response =
    Song (song_radio: pystr) (song_interpreters: pystr) (song_title: pystr)
         (start_time: py_time) (song_timestamp: instant)
  | Silence (silence_radio: pystr) (is_playing: bool) (message: pystr)
            (silence_timestamp: instant)

text \<open>
  What one call of \<^verbatim>\<open>now_playing\<close> reads from outside: the UTC clock on entry; the outcome of
  \<^verbatim>\<open>_build_driver()\<close> and \<^verbatim>\<open>driver.get(URL)\<close>, an exception or the page; the outcome of the
  \<^verbatim>\<open>requests.get\<close>; and \<^verbatim>\<open>datetime.now(LOCAL_TZ).time()\<close>. \<^verbatim>\<open>driver.quit()\<close> in the \<^verbatim>\<open>finally\<close>
  is taken to return.
\<close>

record np_env =
  np_now_utc :: instant
  driver_get :: "selenium_exc + page"
  requests_get :: http_outcome
  now_local_time :: py_time

definition now_playing :: "py_runtime \<Rightarrow> np_env \<Rightarrow> state \<Rightarrow> response \<times> state" where
  "now_playing R env st =
     (let ts_utc = np_now_utc env in
      case bind_exc (driver_get env) (scrape_onair_dynamic R) of
        Inl e \<Rightarrow>
          (Silence RADIO_NAME False (lit ''Upstream page unavailable.'') ts_utc,
           st\<lparr>is_radio_playing := False\<rparr>)
      | Inr None \<Rightarrow>
          (Silence RADIO_NAME False (lit ''Nothing is playing right now.'') ts_utc,
           st\<lparr>is_radio_playing := False\<rparr>)
      | Inr (Some onair) \<Rightarrow>
          let start_t = (case fetch_html_static (requests_get env) of
                           None \<Rightarrow> None
                         | Some sp \<Rightarrow>
                             try_get_start_time_from_playlist R sp
                               (interpreters onair) (title onair));
              start_t = (case start_t of
                           None \<Rightarrow>
                             (now_local_time env)
                               \<lparr>t_second := 0, t_microsecond := 0, t_tzinfo := Some LOCAL_TZ\<rparr>
                         | Some t \<Rightarrow> t)
          in (Song RADIO_NAME (interpreters onair) (title onair) start_t ts_utc,
              st\<lparr>is_radio_playing := True\<rparr>))"

subsection \<open>Notions used to state the properties\<close>

text \<open>
  A row is a match for the normalised lookup pair when it has all three \<^verbatim>\<open>span\<close>s and the
  test of the loop body holds for it.
\<close>

definition row_matches :: "py_runtime \<Rightarrow> pystr \<Rightarrow> pystr \<Rightarrow> row \<Rightarrow> bool" where
  "row_matches R n_artist n_title r \<longleftrightarrow>
     (case (time_span r, artist_span r, title_span r) of
        (Some time_text, Some artist_text, Some title_text) \<Rightarrow>
          norm R artist_text = n_artist \<and> norm R title_text = n_title
      | _ \<Rightarrow> False)"

text \<open>Rows for examples: one with all three \<^verbatim>\<open>span\<close>s, from ASCII text, and one with none.\<close>

definition row_of :: "string \<Rightarrow> string \<Rightarrow> string \<Rightarrow> row" where
  "row_of time_text artist_text title_text =
     \<lparr>time_span = Some (lit time_text), artist_span = Some (lit artist_text),
      title_span = Some (lit title_text)\<rparr>"

definition bare_row :: row where
  "bare_row = \<lparr>time_span = None, artist_span = None, title_span = None\<rparr>"

section \<open>Properties\<close>

subsection \<open>Listener simulator and shared flag\<close>

lemma bitlen_lit:
  "bitlen 0 = 0"
  "bitlen 1 = 1"
  "bitlen (Suc 0) = 1"
  "bitlen (numeral k) = Suc (bitlen (numeral k div 2))"
  by (simp_all add: bitlen.simps)

lemma int_mul_0_15:
  "int_of_float (float_mul \<lparr>neg = False, num = 30, frac = 0\<rparr> float_0_15) = 4"
  "int_of_float (float_mul \<lparr>neg = False, num = 40, frac = 0\<rparr> float_0_15) = 6"
  "int_of_float (float_mul \<lparr>neg = False, num = 50, frac = 0\<rparr> float_0_15) = 7"
  "int_of_float (float_mul \<lparr>neg = False, num = 60, frac = 0\<rparr> float_0_15) = 9"
  by (simp_all add: int_of_float_def float_mul_def float_0_15_def round53_def bitlen_lit Let_def)

lemma float_of_int_small:
  "float_of_int 30 = Inr \<lparr>neg = False, num = 30, frac = 0\<rparr>"
  "float_of_int 40 = Inr \<lparr>neg = False, num = 40, frac = 0\<rparr>"
  "float_of_int 50 = Inr \<lparr>neg = False, num = 50, frac = 0\<rparr>"
  "float_of_int 60 = Inr \<lparr>neg = False, num = 60, frac = 0\<rparr>"
  by (simp_all add: float_of_int_def round53_def bitlen_lit Let_def)

lemma max_change_of_bands:
  "max_change_of 10 40 = Inr 6"
  "max_change_of 100 150 = Inr 9"
  "max_change_of 80 130 = Inr 9"
  "max_change_of 70 110 = Inr 8"
  "max_change_of 120 180 = Inr 11"
  "max_change_of 50 90 = Inr 8"
  "max_change_of 30 60 = Inr 6"
  "max_change_of 50 80 = Inr 6"
  by (simp_all add: max_change_of_def bind_exc_def float_of_int_small int_mul_0_15)

lemma band_cases:
  "get_hourly_base_range h \<in> {(10,40),(100,150),(80,130),(70,110),(120,180),(50,90),(30,60),(50,80)}"
  by (simp add: get_hourly_base_range_def)

lemma max_change_band:
  "get_hourly_base_range h = (lo, hi) \<Longrightarrow> max_change_of lo hi = Inr ((hi - lo) * 15 div 100 + 2)"
  using band_cases[of h]
  by (elim insertE emptyE; simp add: max_change_of_bands)

lemma band_ordered: "get_hourly_base_range h = (lo, hi) \<Longrightarrow> 0 < lo \<and> lo \<le> hi"
  using band_cases[of h] by auto

lemma randint_ok: "a \<le> b \<Longrightarrow> randint env a b = Inr (rand env a b)"
  by (simp add: randint_def)

lemma sample_listeners_band:
  assumes "get_hourly_base_range h = (lo, hi)"
  shows "sample_listeners env l lo hi =
           Inr (if l = 0 then rand env lo hi
                else l + rand env (- ((hi - lo) * 15 div 100 + 2)) ((hi - lo) * 15 div 100 + 2))"
proof -
  define m where "m = (hi - lo) * 15 div 100 + 2"
  have ord: "lo \<le> hi" using band_ordered[OF assms] by simp
  have mc: "max_change_of lo hi = Inr m"
    unfolding m_def by (rule max_change_band[OF assms])
  have "0 \<le> m" unfolding m_def using ord by simp
  then have pos: "- m \<le> m" by simp
  have "sample_listeners env l lo hi = Inr (if l = 0 then rand env lo hi else l + rand env (- m) m)"
    by (simp add: sample_listeners_def mc bind_exc_def randint_ok[OF ord] randint_ok[OF pos])
  then show ?thesis unfolding m_def .
qed

lemma tick_playing:
  assumes "is_radio_playing st" and "get_hourly_base_range (local_hour env) = (lo, hi)"
  shows "generate_listeners_stats env st =
           Inr (\<lparr>listeners = max lo (min (if last_listeners st = 0 then rand env lo hi
                   else last_listeners st + rand env (- ((hi - lo) * 15 div 100 + 2)) ((hi - lo) * 15 div 100 + 2)) hi),
                  stats_timestamp = now_utc env\<rparr>,
                st\<lparr>last_listeners := max lo (min (if last_listeners st = 0 then rand env lo hi
                   else last_listeners st + rand env (- ((hi - lo) * 15 div 100 + 2)) ((hi - lo) * 15 div 100 + 2)) hi)\<rparr>)"
  using assms
  by (simp add: generate_listeners_stats_def sample_listeners_band[OF assms(2)] bind_exc_def Let_def)

lemma tick_silent:
  "\<not> is_radio_playing st \<Longrightarrow>
   generate_listeners_stats env st =
     Inr (\<lparr>listeners = 0, stats_timestamp = now_utc env\<rparr>, st\<lparr>last_listeners := 0\<rparr>)"
  by (simp add: generate_listeners_stats_def)


lemma now_playing_flag:
  "is_radio_playing (snd (now_playing R env st)) =
     (case fst (now_playing R env st) of Song a b c d e \<Rightarrow> True | Silence a b c d \<Rightarrow> False)"
  by (simp add: now_playing_def Let_def split: sum.split option.split)


lemma tick_flag:
  "\<exists>r st'. generate_listeners_stats env st = Inr (r, st') \<and>
            is_radio_playing st' = is_radio_playing st"
proof (cases "is_radio_playing st")
  case True
  obtain lo hi where b: "get_hourly_base_range (local_hour env) = (lo, hi)"
    by (cases "get_hourly_base_range (local_hour env)")
  show ?thesis using tick_playing[OF True b] by simp
next
  case False
  then show ?thesis by (simp add: tick_silent)
qed

text \<open>
  C1. The flag \<^verbatim>\<open>is_radio_playing\<close> starts as \<^verbatim>\<open>True\<close>; a simulator tick returns and leaves it as it
  was; after \<^verbatim>\<open>now_playing\<close> it is \<^verbatim>\<open>True\<close> exactly when the result is a \<^verbatim>\<open>Song\<close>, so it is
  \<^verbatim>\<open>False\<close> after either \<^verbatim>\<open>Silence\<close>.
\<close>

theorem playing_state_tracks_result:
  "is_radio_playing initial_state \<and>
   (\<forall>env st. \<exists>r st'. generate_listeners_stats env st = Inr (r, st') \<and>
                       is_radio_playing st' = is_radio_playing st) \<and>
   (\<forall>R env st. is_radio_playing (snd (now_playing R env st)) =
                  (case fst (now_playing R env st) of
                     Song a b c d e \<Rightarrow> True
                   | Silence a b c d \<Rightarrow> False))"
  using tick_flag now_playing_flag by (simp add: initial_state_def)

text \<open>
  C2. Whatever the hour and whatever number the random generator hands back, a tick taken while
  the flag is \<^verbatim>\<open>True\<close> returns a count inside the band of the hour, and a tick taken while it
  is \<^verbatim>\<open>False\<close> returns \<open>0\<close>.
\<close>

theorem tick_within_band:
  "(is_radio_playing st \<longrightarrow>
      (\<exists>r st'. generate_listeners_stats env st = Inr (r, st') \<and>
                fst (get_hourly_base_range (local_hour env)) \<le> listeners r \<and>
                listeners r \<le> snd (get_hourly_base_range (local_hour env)))) \<and>
   (\<not> is_radio_playing st \<longrightarrow>
      (\<exists>r st'. generate_listeners_stats env st = Inr (r, st') \<and> listeners r = 0))"
proof (intro conjI impI)
  assume p: "is_radio_playing st"
  obtain lo hi where b: "get_hourly_base_range (local_hour env) = (lo, hi)"
    by (cases "get_hourly_base_range (local_hour env)")
  have "lo \<le> hi" using band_ordered[OF b] by simp
  then show "\<exists>r st'. generate_listeners_stats env st = Inr (r, st') \<and>
                fst (get_hourly_base_range (local_hour env)) \<le> listeners r \<and>
                listeners r \<le> snd (get_hourly_base_range (local_hour env))"
    using tick_playing[OF p b] b by simp
next
  assume "\<not> is_radio_playing st"
  then show "\<exists>r st'. generate_listeners_stats env st = Inr (r, st') \<and> listeners r = 0"
    by (simp add: tick_silent)
qed

theorem tick_within_band_witness:
  "(\<exists>r st'. generate_listeners_stats \<lparr>now_utc = 0, local_hour = 7, rand = (\<lambda>a b. 1000)\<rparr>
                \<lparr>is_radio_playing = True, last_listeners = 120\<rparr> = Inr (r, st') \<and>
             100 \<le> listeners r \<and> listeners r \<le> 150) \<and>
   (\<exists>r st'. generate_listeners_stats \<lparr>now_utc = 0, local_hour = 7, rand = (\<lambda>a b. 1000)\<rparr>
                \<lparr>is_radio_playing = False, last_listeners = 120\<rparr> = Inr (r, st') \<and>
             listeners r = 0)"
  using tick_within_band[of "\<lparr>is_radio_playing = True, last_listeners = 120\<rparr>"
          "\<lparr>now_utc = 0, local_hour = 7, rand = (\<lambda>a b. 1000)\<rparr>"]
        tick_within_band[of "\<lparr>is_radio_playing = False, last_listeners = 120\<rparr>"
          "\<lparr>now_utc = 0, local_hour = 7, rand = (\<lambda>a b. 1000)\<rparr>"]
  by (simp add: get_hourly_base_range_def)


theorem playing_state_tracks_result_witness:
  "is_radio_playing initial_state \<and>
   (\<exists>r st'. generate_listeners_stats \<lparr>now_utc = 0, local_hour = 7, rand = (\<lambda>a b. a)\<rparr>
               initial_state = Inr (r, st') \<and> is_radio_playing st') \<and>
   fst (now_playing ascii_runtime
          \<lparr>np_now_utc = 0, driver_get = Inl WebDriverException, requests_get = RequestException,
           now_local_time = \<lparr>t_hour = 7, t_minute = 30, t_second = 12, t_microsecond = 5,
                              t_tzinfo = None, t_fold = 0\<rparr>\<rparr> initial_state)
     = Silence RADIO_NAME False (lit ''Upstream page unavailable.'') 0 \<and>
   \<not> is_radio_playing (snd (now_playing ascii_runtime
          \<lparr>np_now_utc = 0, driver_get = Inl WebDriverException, requests_get = RequestException,
           now_local_time = \<lparr>t_hour = 7, t_minute = 30, t_second = 12, t_microsecond = 5,
                              t_tzinfo = None, t_fold = 0\<rparr>\<rparr> initial_state))"
proof -
  have a: "fst (now_playing ascii_runtime
          \<lparr>np_now_utc = 0, driver_get = Inl WebDriverException, requests_get = RequestException,
           now_local_time = \<lparr>t_hour = 7, t_minute = 30, t_second = 12, t_microsecond = 5,
                              t_tzinfo = None, t_fold = 0\<rparr>\<rparr> initial_state)
     = Silence RADIO_NAME False (lit ''Upstream page unavailable.'') 0"
    by (simp add: now_playing_def bind_exc_def)
  from playing_state_tracks_result have
    f: "is_radio_playing initial_state"
    and t: "\<And>env st. \<exists>r st'. generate_listeners_stats env st = Inr (r, st') \<and>
                       is_radio_playing st' = is_radio_playing st"
    and n: "\<And>R env st. is_radio_playing (snd (now_playing R env st)) =
                  (case fst (now_playing R env st) of
                     Song a b c d e \<Rightarrow> True
                   | Silence a b c d \<Rightarrow> False)"
    by blast+
  show ?thesis
    using f t[of "\<lparr>now_utc = 0, local_hour = 7, rand = (\<lambda>a b. a)\<rparr>" initial_state] a
      n[of ascii_runtime "\<lparr>np_now_utc = 0, driver_get = Inl WebDriverException, requests_get = RequestException,
           now_local_time = \<lparr>t_hour = 7, t_minute = 30, t_second = 12, t_microsecond = 5,
                              t_tzinfo = None, t_fold = 0\<rparr>\<rparr>" initial_state]
    by simp
qed

text \<open>
  C3. A tick taken while the flag is \<^verbatim>\<open>True\<close> looks up the band \<open>(min_base, max_base)\<close> of the
  hour. With \<open>max_change = floor ((max_base - min_base) * 15 / 100) + 2\<close>, which is what the
  floating-point expression of the source yields on every band, it draws from
  \<open>[min_base, max_base]\<close> when the rolling count is \<open>0\<close> and otherwise adds a draw from
  \<open>[- max_change, max_change]\<close> to the rolling count; both ranges are non-empty. The sum is
  clamped into the band, stored as the new rolling count and returned.
\<close>

theorem tick_playing_computation:
  assumes "is_radio_playing st"
  shows "let (min_base, max_base) = get_hourly_base_range (local_hour env);
             max_change = (max_base - min_base) * 15 div 100 + 2;
             new_listeners =
               max min_base
                 (min (if last_listeners st = 0 then rand env min_base max_base
                       else last_listeners st + rand env (- max_change) max_change)
                      max_base)
         in min_base \<le> max_base \<and> - max_change \<le> max_change \<and>
            max_change_of min_base max_base = Inr max_change \<and>
            generate_listeners_stats env st =
              Inr (\<lparr>listeners = new_listeners, stats_timestamp = now_utc env\<rparr>,
                   st\<lparr>last_listeners := new_listeners\<rparr>)"
proof -
  obtain lo hi where b: "get_hourly_base_range (local_hour env) = (lo, hi)"
    by (cases "get_hourly_base_range (local_hour env)")
  have ord: "lo \<le> hi" using band_ordered[OF b] by simp
  define m where "m = (hi - lo) * 15 div 100 + 2"
  have "0 \<le> m" unfolding m_def using ord by simp
  then have pos: "- m \<le> m" by simp
  have mc: "max_change_of lo hi = Inr m" unfolding m_def by (rule max_change_band[OF b])
  have run: "generate_listeners_stats env st =
      Inr (\<lparr>listeners = max lo (min (if last_listeners st = 0 then rand env lo hi
                 else last_listeners st + rand env (- m) m) hi), stats_timestamp = now_utc env\<rparr>,
           st\<lparr>last_listeners := max lo (min (if last_listeners st = 0 then rand env lo hi
                 else last_listeners st + rand env (- m) m) hi)\<rparr>)"
    unfolding m_def by (rule tick_playing[OF assms b])
  show ?thesis
    unfolding b Let_def prod.case m_def[symmetric]
    using ord pos mc run by blast
qed

theorem tick_playing_computation_witness:
  "generate_listeners_stats \<lparr>now_utc = 42, local_hour = 7, rand = (\<lambda>a b. b)\<rparr>
     \<lparr>is_radio_playing = True, last_listeners = 120\<rparr> =
   Inr (\<lparr>listeners = 129, stats_timestamp = 42\<rparr>,
        \<lparr>is_radio_playing = True, last_listeners = 129\<rparr>) \<and>
   generate_listeners_stats \<lparr>now_utc = 42, local_hour = 7, rand = (\<lambda>a b. b)\<rparr>
     \<lparr>is_radio_playing = True, last_listeners = 0\<rparr> =
   Inr (\<lparr>listeners = 150, stats_timestamp = 42\<rparr>,
        \<lparr>is_radio_playing = True, last_listeners = 150\<rparr>)"
  using tick_playing_computation[of "\<lparr>is_radio_playing = True, last_listeners = 120\<rparr>"
          "\<lparr>now_utc = 42, local_hour = 7, rand = (\<lambda>a b. b)\<rparr>"]
        tick_playing_computation[of "\<lparr>is_radio_playing = True, last_listeners = 0\<rparr>"
          "\<lparr>now_utc = 42, local_hour = 7, rand = (\<lambda>a b. b)\<rparr>"]
  by (simp add: get_hourly_base_range_def)




subsection \<open>Playlist resolver\<close>

lemma row_matches_iff:
  "row_matches R na nt r \<longleftrightarrow>
     (\<exists>time_text artist_text title_text.
        time_span r = Some time_text \<and> artist_span r = Some artist_text \<and>
        title_span r = Some title_text \<and> norm R artist_text = na \<and> norm R title_text = nt)"
  by (auto simp: row_matches_def split: option.splits)

lemma scan_rows_find:
  "scan_rows R na nt rows =
     (case find (row_matches R na nt) rows of
        None \<Rightarrow> None
      | Some r \<Rightarrow>
          (case time_span r of
             None \<Rightarrow> None
           | Some txt \<Rightarrow> (case parse_start_time R txt of Inl e \<Rightarrow> None | Inr t \<Rightarrow> Some t)))"
proof (induction rows)
  case Nil
  show ?case by simp
next
  case (Cons r rows)
  show ?case
  proof (cases "row_matches R na nt r")
    case True
    then show ?thesis by (auto simp: row_matches_iff)
  next
    case False
    then have "scan_rows R na nt (r # rows) = scan_rows R na nt rows"
      by (auto simp: row_matches_iff split: option.splits)
    with False Cons.IH show ?thesis by simp
  qed
qed

lemma try_get_find:
  "try_get_start_time_from_playlist R sp artist ttl =
     (case playlist_table sp of
        None \<Rightarrow> None
      | Some rows \<Rightarrow>
          (case find (row_matches R (norm R artist) (norm R ttl)) (take 5 rows) of
             None \<Rightarrow> None
           | Some r \<Rightarrow>
               (case time_span r of
                  None \<Rightarrow> None
                | Some txt \<Rightarrow>
                    (case parse_start_time R txt of Inl e \<Rightarrow> None | Inr t \<Rightarrow> Some t))))"
  by (cases "playlist_table sp")
     (simp_all add: try_get_start_time_from_playlist_def scan_rows_find)

lemma find_row_matches_time:
  "find (row_matches R na nt) rows = Some r \<Longrightarrow> \<exists>txt. time_span r = Some txt"
  by (auto simp: find_Some_iff row_matches_iff)

lemma split_piece_prefix:
  "sep \<notin> set xs \<Longrightarrow> split_piece sep cur (xs @ ys) = split_piece sep (cur @ xs) ys"
  by (induction xs arbitrary: cur) auto

lemma take2_split_on:
  assumes "sep \<notin> set hh" and "sep \<notin> set mm" and "rest = [] \<or> (\<exists>more. rest = sep # more)"
  shows "take 2 (split_on sep (hh @ sep # mm @ rest)) = [hh, mm]"
proof -
  have "split_on sep (hh @ sep # mm @ rest) = hh # split_piece sep [] (mm @ rest)"
    using split_piece_prefix[OF assms(1), of "[]" "sep # mm @ rest"] by (simp add: split_on_def)
  also have "split_piece sep [] (mm @ rest) = split_piece sep mm rest"
    using split_piece_prefix[OF assms(2), of "[]" rest] by simp
  finally have "split_on sep (hh @ sep # mm @ rest) = hh # split_piece sep mm rest" .
  moreover have "take 1 (split_piece sep mm rest) = [mm]"
    using assms(3) by auto
  ultimately show ?thesis by (simp add: numeral_2_eq_2)
qed

lemma parse_start_time_hh_mm:
  assumes "58 \<notin> set hh" and "58 \<notin> set mm" and "rest = [] \<or> (\<exists>more. rest = 58 # more)"
    and "py_int R hh = Inr h" and "py_int R mm = Inr m"
    and "0 \<le> h" "h \<le> 23" "0 \<le> m" "m \<le> 59"
  shows "parse_start_time R (hh @ 58 # mm @ rest) =
           Inr \<lparr>t_hour = h, t_minute = m, t_second = 0, t_microsecond = 0,
                t_tzinfo = Some LOCAL_TZ, t_fold = 0\<rparr>"
  using assms(4-9)
  by (simp add: parse_start_time_def take2_split_on[OF assms(1-3)] bind_exc_def time_of_def)

lemma parse_start_time_Inr:
  assumes "parse_start_time R txt = Inr tm"
  shows "0 \<le> t_hour tm \<and> t_hour tm \<le> 23 \<and> 0 \<le> t_minute tm \<and> t_minute tm \<le> 59 \<and>
         t_second tm = 0 \<and> t_microsecond tm = 0 \<and> t_tzinfo tm = Some LOCAL_TZ"
  using assms
  by (auto simp: parse_start_time_def bind_exc_def time_of_def
           split: list.splits sum.splits if_splits)


lemmas str_eval =
  lit_def norm_def strip_def strip_with_def py_isspace_def split_ws_def
  ascii_runtime_def ascii_lower_def row_of_def bare_row_def

lemmas int_eval = py_int_def strip_with_def int_isspace_def py_isspace_def digit_of_def lit_def

text \<open>
  C5. The resolver looks at the first five rows only: cutting the table to them changes
  nothing. When it returns a time, that time was parsed from the first row, in document order
  among those five, that has all three \<^verbatim>\<open>span\<close>s and whose artist and title are equal to the
  lookup artist and title after \<^verbatim>\<open>strip\<close>, \<^verbatim>\<open>casefold\<close> and collapsing white space; the time is
  tagged with \<^verbatim>\<open>LOCAL_TZ\<close>. When the time text of that row is \<^verbatim>\<open>HH:MM\<close>, alone or followed by
  \<^verbatim>\<open>:\<close> and anything, with \<^verbatim>\<open>HH\<close> an integer in \<open>0..23\<close> and \<^verbatim>\<open>MM\<close> one in \<open>0..59\<close>, the
  resolver returns \<^verbatim>\<open>HH:MM\<close> with seconds and microseconds \<open>0\<close>.
\<close>

theorem playlist_first_match_in_top5:
  "try_get_start_time_from_playlist R sp artist ttl =
     try_get_start_time_from_playlist R
       (sp\<lparr>playlist_table := map_option (take 5) (playlist_table sp)\<rparr>) artist ttl \<and>
   (\<forall>tm. try_get_start_time_from_playlist R sp artist ttl = Some tm \<longrightarrow>
      (\<exists>rows r time_text artist_text title_text.
         playlist_table sp = Some rows \<and>
         find (row_matches R (norm R artist) (norm R ttl)) (take 5 rows) = Some r \<and>
         time_span r = Some time_text \<and> artist_span r = Some artist_text \<and>
         title_span r = Some title_text \<and>
         norm R artist_text = norm R artist \<and> norm R title_text = norm R ttl \<and>
         parse_start_time R time_text = Inr tm \<and> t_tzinfo tm = Some LOCAL_TZ)) \<and>
   (\<forall>rows r hh mm rest h m.
      playlist_table sp = Some rows \<and>
      find (row_matches R (norm R artist) (norm R ttl)) (take 5 rows) = Some r \<and>
      time_span r = Some (hh @ 58 # mm @ rest) \<and> 58 \<notin> set hh \<and> 58 \<notin> set mm \<and>
      (rest = [] \<or> (\<exists>more. rest = 58 # more)) \<and>
      py_int R hh = Inr h \<and> py_int R mm = Inr m \<and>
      0 \<le> h \<and> h \<le> 23 \<and> 0 \<le> m \<and> m \<le> 59 \<longrightarrow>
      try_get_start_time_from_playlist R sp artist ttl =
        Some \<lparr>t_hour = h, t_minute = m, t_second = 0, t_microsecond = 0,
              t_tzinfo = Some LOCAL_TZ, t_fold = 0\<rparr>)"
proof (intro conjI allI impI)
  show "try_get_start_time_from_playlist R sp artist ttl =
     try_get_start_time_from_playlist R
       (sp\<lparr>playlist_table := map_option (take 5) (playlist_table sp)\<rparr>) artist ttl"
    by (cases "playlist_table sp") (simp_all add: try_get_find)
next
  fix tm
  assume res: "try_get_start_time_from_playlist R sp artist ttl = Some tm"
  then obtain rows r time_text where
    tab: "playlist_table sp = Some rows" and
    fnd: "find (row_matches R (norm R artist) (norm R ttl)) (take 5 rows) = Some r" and
    tsp: "time_span r = Some time_text" and
    prs: "parse_start_time R time_text = Inr tm"
    by (auto simp: try_get_find split: option.splits sum.splits)
  from fnd have "row_matches R (norm R artist) (norm R ttl) r"
    by (auto simp: find_Some_iff)
  then obtain artist_text title_text where
    "artist_span r = Some artist_text" "title_span r = Some title_text"
    "norm R artist_text = norm R artist" "norm R title_text = norm R ttl"
    by (auto simp: row_matches_iff)
  with tab fnd tsp prs parse_start_time_Inr[OF prs]
  show "\<exists>rows r time_text artist_text title_text.
         playlist_table sp = Some rows \<and>
         find (row_matches R (norm R artist) (norm R ttl)) (take 5 rows) = Some r \<and>
         time_span r = Some time_text \<and> artist_span r = Some artist_text \<and>
         title_span r = Some title_text \<and>
         norm R artist_text = norm R artist \<and> norm R title_text = norm R ttl \<and>
         parse_start_time R time_text = Inr tm \<and> t_tzinfo tm = Some LOCAL_TZ"
    by blast
next
  fix rows r hh mm rest h m
  assume a: "playlist_table sp = Some rows \<and>
      find (row_matches R (norm R artist) (norm R ttl)) (take 5 rows) = Some r \<and>
      time_span r = Some (hh @ 58 # mm @ rest) \<and> 58 \<notin> set hh \<and> 58 \<notin> set mm \<and>
      (rest = [] \<or> (\<exists>more. rest = 58 # more)) \<and>
      py_int R hh = Inr h \<and> py_int R mm = Inr m \<and>
      0 \<le> h \<and> h \<le> 23 \<and> 0 \<le> m \<and> m \<le> 59"
  then have "parse_start_time R (hh @ 58 # mm @ rest) =
           Inr \<lparr>t_hour = h, t_minute = m, t_second = 0, t_microsecond = 0,
                t_tzinfo = Some LOCAL_TZ, t_fold = 0\<rparr>"
    by (intro parse_start_time_hh_mm) simp_all
  with a show "try_get_start_time_from_playlist R sp artist ttl =
        Some \<lparr>t_hour = h, t_minute = m, t_second = 0, t_microsecond = 0,
              t_tzinfo = Some LOCAL_TZ, t_fold = 0\<rparr>"
    by (simp add: try_get_find)
qed

theorem playlist_first_match_in_top5_witness:
  "try_get_start_time_from_playlist ascii_runtime
     \<lparr>playlist_table = Some [bare_row, row_of ''13:59'' ''Other'' ''Song Y'',
        row_of ''14:05:33'' '' ARTIST   x'' ''song y '', row_of ''14:10'' ''Artist X'' ''Song Y'']\<rparr>
     (lit ''Artist X'') (lit ''Song Y'') =
   Some \<lparr>t_hour = 14, t_minute = 5, t_second = 0, t_microsecond = 0,
         t_tzinfo = Some LOCAL_TZ, t_fold = 0\<rparr>"
proof -
  let ?sp = "\<lparr>playlist_table = Some [bare_row, row_of ''13:59'' ''Other'' ''Song Y'',
        row_of ''14:05:33'' '' ARTIST   x'' ''song y '', row_of ''14:10'' ''Artist X'' ''Song Y'']\<rparr>"
  let ?rows = "[bare_row, row_of ''13:59'' ''Other'' ''Song Y'',
        row_of ''14:05:33'' '' ARTIST   x'' ''song y '', row_of ''14:10'' ''Artist X'' ''Song Y'']"
  have f: "find (row_matches ascii_runtime (norm ascii_runtime (lit ''Artist X''))
                   (norm ascii_runtime (lit ''Song Y''))) (take 5 ?rows) =
           Some (row_of ''14:05:33'' '' ARTIST   x'' ''song y '')"
    by (simp add: row_matches_def str_eval)
  have t: "time_span (row_of ''14:05:33'' '' ARTIST   x'' ''song y '') =
             Some (lit ''14'' @ 58 # lit ''05'' @ lit '':33'')"
    by (simp add: row_of_def lit_def)
  have i: "py_int ascii_runtime (lit ''14'') = Inr 14" "py_int ascii_runtime (lit ''05'') = Inr 5"
    by (simp_all add: int_eval)
  have s: "58 \<notin> set (lit ''14'')" "58 \<notin> set (lit ''05'')" "\<exists>more. lit '':33'' = 58 # more"
    by (simp_all add: lit_def)
  from playlist_first_match_in_top5[of ascii_runtime ?sp "lit ''Artist X''" "lit ''Song Y''"]
  have "\<forall>rows r hh mm rest h m.
      playlist_table ?sp = Some rows \<and>
      find (row_matches ascii_runtime (norm ascii_runtime (lit ''Artist X''))
              (norm ascii_runtime (lit ''Song Y''))) (take 5 rows) = Some r \<and>
      time_span r = Some (hh @ 58 # mm @ rest) \<and> 58 \<notin> set hh \<and> 58 \<notin> set mm \<and>
      (rest = [] \<or> (\<exists>more. rest = 58 # more)) \<and>
      py_int ascii_runtime hh = Inr h \<and> py_int ascii_runtime mm = Inr m \<and>
      0 \<le> h \<and> h \<le> 23 \<and> 0 \<le> m \<and> m \<le> 59 \<longrightarrow>
      try_get_start_time_from_playlist ascii_runtime ?sp (lit ''Artist X'') (lit ''Song Y'') =
        Some \<lparr>t_hour = h, t_minute = m, t_second = 0, t_microsecond = 0,
              t_tzinfo = Some LOCAL_TZ, t_fold = 0\<rparr>"
    by blast
  from this[rule_format, of ?rows "row_of ''14:05:33'' '' ARTIST   x'' ''song y ''"
      "lit ''14''" "lit ''05''" "lit '':33''" 14 5] f t i s
  show ?thesis by simp
qed


lemma scan_rows_parse_failure:
  assumes "row_matches R na nt r" and "time_span r = Some time_text"
    and "parse_start_time R time_text = Inl e"
  shows "scan_rows R na nt (r # rest) = None"
  using assms by (simp add: scan_rows_find)

lemma try_get_None_iff:
  "try_get_start_time_from_playlist R sp artist ttl = None \<longleftrightarrow>
     playlist_table sp = None \<or>
     (\<exists>rows. playlist_table sp = Some rows \<and>
        (find (row_matches R (norm R artist) (norm R ttl)) (take 5 rows) = None \<or>
         (\<exists>r time_text e.
            find (row_matches R (norm R artist) (norm R ttl)) (take 5 rows) = Some r \<and>
            time_span r = Some time_text \<and> parse_start_time R time_text = Inl e)))"
proof (cases "playlist_table sp")
  case None
  then show ?thesis by (simp add: try_get_find)
next
  case (Some rows)
  show ?thesis
  proof (cases "find (row_matches R (norm R artist) (norm R ttl)) (take 5 rows)")
    case None
    with Some show ?thesis by (simp add: try_get_find)
  next
    case (Some r)
    from find_row_matches_time[OF Some] obtain time_text where "time_span r = Some time_text"
      by blast
    with Some \<open>playlist_table sp = Some rows\<close> show ?thesis
      by (cases "parse_start_time R time_text") (simp_all add: try_get_find)
  qed
qed

text \<open>
  The value of the resolver is \<^verbatim>\<open>None\<close> when the table is absent, when it has no rows, when
  none of the first five rows is a match, and when the first match has a time text whose
  parsing raises; in the last case the loop stops at that row, whatever rows follow. These are
  the only cases in which the value is \<^verbatim>\<open>None\<close>.
\<close>

theorem playlist_resolver_failures_are_None:
  "(playlist_table sp = None \<longrightarrow> try_get_start_time_from_playlist R sp artist ttl = None) \<and>
   (playlist_table sp = Some [] \<longrightarrow> try_get_start_time_from_playlist R sp artist ttl = None) \<and>
   (\<forall>rows. playlist_table sp = Some rows \<and>
      find (row_matches R (norm R artist) (norm R ttl)) (take 5 rows) = None \<longrightarrow>
      try_get_start_time_from_playlist R sp artist ttl = None) \<and>
   (\<forall>rows r time_text e.
      playlist_table sp = Some rows \<and>
      find (row_matches R (norm R artist) (norm R ttl)) (take 5 rows) = Some r \<and>
      time_span r = Some time_text \<and> parse_start_time R time_text = Inl e \<longrightarrow>
      try_get_start_time_from_playlist R sp artist ttl = None) \<and>
   (\<forall>r rest time_text e.
      row_matches R (norm R artist) (norm R ttl) r \<and> time_span r = Some time_text \<and>
      parse_start_time R time_text = Inl e \<longrightarrow>
      scan_rows R (norm R artist) (norm R ttl) (r # rest) = None) \<and>
   (try_get_start_time_from_playlist R sp artist ttl = None \<longrightarrow>
      playlist_table sp = None \<or>
      (\<exists>rows. playlist_table sp = Some rows \<and>
         (find (row_matches R (norm R artist) (norm R ttl)) (take 5 rows) = None \<or>
          (\<exists>r time_text e.
             find (row_matches R (norm R artist) (norm R ttl)) (take 5 rows) = Some r \<and>
             time_span r = Some time_text \<and> parse_start_time R time_text = Inl e))))"
proof (intro conjI allI impI)
  show "try_get_start_time_from_playlist R sp artist ttl = None" if "playlist_table sp = None"
    using that by (simp add: try_get_None_iff)
  show "try_get_start_time_from_playlist R sp artist ttl = None" if "playlist_table sp = Some []"
    using that by (simp add: try_get_None_iff)
  show "try_get_start_time_from_playlist R sp artist ttl = None"
    if "playlist_table sp = Some rows \<and>
        find (row_matches R (norm R artist) (norm R ttl)) (take 5 rows) = None" for rows
    using that by (simp add: try_get_None_iff)
  show "try_get_start_time_from_playlist R sp artist ttl = None"
    if "playlist_table sp = Some rows \<and>
        find (row_matches R (norm R artist) (norm R ttl)) (take 5 rows) = Some r \<and>
        time_span r = Some time_text \<and> parse_start_time R time_text = Inl e"
    for rows r time_text e
    using that by (simp add: try_get_None_iff)
  show "scan_rows R (norm R artist) (norm R ttl) (r # rest) = None"
    if "row_matches R (norm R artist) (norm R ttl) r \<and> time_span r = Some time_text \<and>
        parse_start_time R time_text = Inl e" for r rest time_text e
    using that scan_rows_parse_failure by blast
  show "playlist_table sp = None \<or>
      (\<exists>rows. playlist_table sp = Some rows \<and>
         (find (row_matches R (norm R artist) (norm R ttl)) (take 5 rows) = None \<or>
          (\<exists>r time_text e.
             find (row_matches R (norm R artist) (norm R ttl)) (take 5 rows) = Some r \<and>
             time_span r = Some time_text \<and> parse_start_time R time_text = Inl e)))"
    if "try_get_start_time_from_playlist R sp artist ttl = None"
    using that by (simp only: try_get_None_iff)
qed

lemma parse_25_00: "parse_start_time ascii_runtime (lit ''25:00'') = Inl ValueError"
  by (simp add: parse_start_time_def split_on_def bind_exc_def time_of_def int_eval)

theorem playlist_resolver_failures_are_None_witness:
  "try_get_start_time_from_playlist ascii_runtime
     \<lparr>playlist_table = Some [row_of ''25:00'' ''Artist X'' ''Song Y'',
                             row_of ''14:05'' ''Artist X'' ''Song Y'']\<rparr>
     (lit ''Artist X'') (lit ''Song Y'') = None \<and>
   try_get_start_time_from_playlist ascii_runtime \<lparr>playlist_table = None\<rparr>
     (lit ''Artist X'') (lit ''Song Y'') = None \<and>
   try_get_start_time_from_playlist ascii_runtime \<lparr>playlist_table = Some []\<rparr>
     (lit ''Artist X'') (lit ''Song Y'') = None"
proof -
  let ?rows = "[row_of ''25:00'' ''Artist X'' ''Song Y'', row_of ''14:05'' ''Artist X'' ''Song Y'']"
  have f: "find (row_matches ascii_runtime (norm ascii_runtime (lit ''Artist X''))
                   (norm ascii_runtime (lit ''Song Y''))) (take 5 ?rows) =
           Some (row_of ''25:00'' ''Artist X'' ''Song Y'')"
    by (simp add: row_matches_def str_eval)
  have t: "time_span (row_of ''25:00'' ''Artist X'' ''Song Y'') = Some (lit ''25:00'')"
    by (simp add: row_of_def)
  from playlist_resolver_failures_are_None[of "\<lparr>playlist_table = Some ?rows\<rparr>" ascii_runtime
      "lit ''Artist X''" "lit ''Song Y''"]
  have "\<forall>rows r time_text e.
      playlist_table \<lparr>playlist_table = Some ?rows\<rparr> = Some rows \<and>
      find (row_matches ascii_runtime (norm ascii_runtime (lit ''Artist X''))
              (norm ascii_runtime (lit ''Song Y''))) (take 5 rows) = Some r \<and>
      time_span r = Some time_text \<and> parse_start_time ascii_runtime time_text = Inl e \<longrightarrow>
      try_get_start_time_from_playlist ascii_runtime \<lparr>playlist_table = Some ?rows\<rparr>
        (lit ''Artist X'') (lit ''Song Y'') = None"
    by blast
  from this[rule_format, of ?rows "row_of ''25:00'' ''Artist X'' ''Song Y''" "lit ''25:00''"
      ValueError] f t parse_25_00
  have a: "try_get_start_time_from_playlist ascii_runtime \<lparr>playlist_table = Some ?rows\<rparr>
        (lit ''Artist X'') (lit ''Song Y'') = None"
    by simp
  have b: "try_get_start_time_from_playlist ascii_runtime \<lparr>playlist_table = None\<rparr>
     (lit ''Artist X'') (lit ''Song Y'') = None"
    using playlist_resolver_failures_are_None[of "\<lparr>playlist_table = None\<rparr>" ascii_runtime
      "lit ''Artist X''" "lit ''Song Y''"] by simp
  have c: "try_get_start_time_from_playlist ascii_runtime \<lparr>playlist_table = Some []\<rparr>
     (lit ''Artist X'') (lit ''Song Y'') = None"
    using playlist_resolver_failures_are_None[of "\<lparr>playlist_table = Some []\<rparr>" ascii_runtime
      "lit ''Artist X''" "lit ''Song Y''"] by simp
  from a b c show ?thesis by simp
qed

lemma incomplete_row_no_match:
  "time_span q = None \<or> artist_span q = None \<or> title_span q = None \<Longrightarrow>
   \<not> row_matches R na nt q"
  by (auto simp: row_matches_iff)

text \<open>
  C10. A row that lacks the time, the artist or the title \<^verbatim>\<open>span\<close> is passed over by the loop;
  and when the first five rows are all incomplete or not a match, the resolver returns
  \<^verbatim>\<open>None\<close> whatever rows come after them, a match included.
\<close>

theorem incomplete_rows_use_up_top5:
  "((time_span r = None \<or> artist_span r = None \<or> title_span r = None) \<longrightarrow>
      scan_rows R na nt (r # rest) = scan_rows R na nt rest) \<and>
   (length pre = 5 \<and>
    (\<forall>q\<in>set pre. time_span q = None \<or> artist_span q = None \<or> title_span q = None \<or>
                  \<not> row_matches R (norm R artist) (norm R ttl) q) \<longrightarrow>
    try_get_start_time_from_playlist R \<lparr>playlist_table = Some (pre @ post)\<rparr> artist ttl = None)"
proof (intro conjI impI)
  assume "time_span r = None \<or> artist_span r = None \<or> title_span r = None"
  then have "\<not> row_matches R na nt r" by (rule incomplete_row_no_match)
  then show "scan_rows R na nt (r # rest) = scan_rows R na nt rest"
    by (simp add: scan_rows_find)
next
  assume a: "length pre = 5 \<and>
    (\<forall>q\<in>set pre. time_span q = None \<or> artist_span q = None \<or> title_span q = None \<or>
                  \<not> row_matches R (norm R artist) (norm R ttl) q)"
  then have "\<forall>q\<in>set pre. \<not> row_matches R (norm R artist) (norm R ttl) q"
    using incomplete_row_no_match by blast
  then have "find (row_matches R (norm R artist) (norm R ttl)) pre = None"
    by (simp add: find_None_iff)
  moreover have "take 5 (pre @ post) = pre" using a by simp
  ultimately show
    "try_get_start_time_from_playlist R \<lparr>playlist_table = Some (pre @ post)\<rparr> artist ttl = None"
    by (simp add: try_get_find)
qed

theorem incomplete_rows_use_up_top5_witness:
  "try_get_start_time_from_playlist ascii_runtime
     \<lparr>playlist_table = Some ([bare_row, bare_row, bare_row, bare_row, bare_row] @
                              [row_of ''14:05'' ''Artist X'' ''Song Y''])\<rparr>
     (lit ''Artist X'') (lit ''Song Y'') = None"
  using incomplete_rows_use_up_top5[of bare_row ascii_runtime "[]" "[]" "[]"
      "[bare_row, bare_row, bare_row, bare_row, bare_row]" "lit ''Artist X''" "lit ''Song Y''"
      "[row_of ''14:05'' ''Artist X'' ''Song Y'']"]
  by (simp add: bare_row_def)


subsection \<open>Playlist resolver with its log lines\<close>

lemma py_print_ascii_line: "py_print L no_match_line = Inr ()"
  by (simp add: py_print_def no_match_line_def lit_def)

lemma scan_rows_logged_find:
  "scan_rows_logged R L na nt rows =
     (case find (row_matches R na nt) rows of
        None \<Rightarrow> Inr None
      | Some r \<Rightarrow>
          (case time_span r of
             None \<Rightarrow> Inr None
           | Some time_text \<Rightarrow>
               (case parse_start_time R time_text of
                  Inl e \<Rightarrow> bind_exc (py_print L (parse_error_line L time_text e)) (\<lambda>u. Inr None)
                | Inr t \<Rightarrow> Inr (Some t))))"
proof (induction rows)
  case Nil
  show ?case by (simp add: py_print_ascii_line bind_exc_def)
next
  case (Cons r rows)
  show ?case
  proof (cases "row_matches R na nt r")
    case True
    then show ?thesis by (auto simp: row_matches_iff)
  next
    case False
    then have "scan_rows_logged R L na nt (r # rows) = scan_rows_logged R L na nt rows"
      by (auto simp: row_matches_iff split: option.splits)
    with False Cons.IH show ?thesis by simp
  qed
qed

lemma try_get_logged_find:
  "try_get_start_time_from_playlist_logged R L sp artist ttl =
     (case playlist_table sp of
        None \<Rightarrow> Inr None
      | Some rows \<Rightarrow>
          (case find (row_matches R (norm R artist) (norm R ttl)) (take 5 rows) of
             None \<Rightarrow> Inr None
           | Some r \<Rightarrow>
               (case time_span r of
                  None \<Rightarrow> Inr None
                | Some time_text \<Rightarrow>
                    (case parse_start_time R time_text of
                       Inl e \<Rightarrow>
                         bind_exc (py_print L (parse_error_line L time_text e)) (\<lambda>u. Inr None)
                     | Inr t \<Rightarrow> Inr (Some t)))))"
  by (cases "playlist_table sp")
     (simp_all add: try_get_start_time_from_playlist_logged_def scan_rows_logged_find)

lemma try_get_logged_returns:
  "try_get_start_time_from_playlist_logged R L sp artist ttl = Inr v \<Longrightarrow>
   try_get_start_time_from_playlist R sp artist ttl = v"
  by (auto simp: try_get_logged_find try_get_find bind_exc_def
           split: option.splits sum.splits)





subsection \<open>On-air extraction and the endpoint\<close>

lemma scrape_located:
  assumes "interpret_el blk = Some artist_text" and "titul_el blk = Some title_text"
  shows "scrape_onair_dynamic R (Some blk) =
           (if join (lit '' '') (split_ws (str_lower R (strip title_text))) \<in> silence_patterns \<or>
               strip artist_text = [] \<or> strip title_text = []
            then Inr None
            else Inr (Some \<lparr>interpreters = strip artist_text, title = strip title_text\<rparr>))"
  using assms by (simp add: scrape_onair_dynamic_def Let_def)

lemma scrape_Some:
  assumes "scrape_onair_dynamic R pg = Inr (Some oa)"
  shows "interpreters oa \<noteq> [] \<and> title oa \<noteq> [] \<and>
         join (lit '' '') (split_ws (str_lower R (title oa))) \<notin> silence_patterns"
  using assms
  by (auto simp: scrape_onair_dynamic_def Let_def split: option.splits if_splits)

lemma now_playing_Song:
  assumes "fst (now_playing R env st) = Song rd a t stt ts"
  shows "\<exists>pg oa. driver_get env = Inr pg \<and> scrape_onair_dynamic R pg = Inr (Some oa) \<and>
                 a = interpreters oa \<and> t = title oa"
  using assms
  by (auto simp: now_playing_def bind_exc_def Let_def split: sum.splits option.splits)


lemma now_playing_no_candidate:
  assumes "driver_get env = Inr pg" and "scrape_onair_dynamic R pg = Inr None"
  shows "now_playing R env st =
           (Silence RADIO_NAME False (lit ''Nothing is playing right now.'') (np_now_utc env),
            st\<lparr>is_radio_playing := False\<rparr>)"
  using assms by (simp add: now_playing_def bind_exc_def Let_def)

lemma now_playing_raised:
  assumes "driver_get env = Inl e \<or>
           (\<exists>pg e'. driver_get env = Inr pg \<and> scrape_onair_dynamic R pg = Inl e')"
  shows "now_playing R env st =
           (Silence RADIO_NAME False (lit ''Upstream page unavailable.'') (np_now_utc env),
            st\<lparr>is_radio_playing := False\<rparr>)"
  using assms by (auto simp: now_playing_def bind_exc_def Let_def)





text \<open>
  C8, amended. When the block and both of its \<^verbatim>\<open>span\<close>s are located, \<^verbatim>\<open>scrape_onair_dynamic\<close>
  returns \<^verbatim>\<open>None\<close> exactly when the title, stripped, lower-cased with \<^verbatim>\<open>str.lower\<close> and with its
  white space collapsed, is one of the silence phrases, or the stripped artist or the stripped
  title is empty; otherwise it returns the stripped artist and title. So a \<^verbatim>\<open>Song\<close> has a
  non-empty artist and a non-empty title whose lower-cased, collapsed form is not a silence
  phrase.
\<close>

theorem onair_candidate_iff:
  "(interpret_el blk = Some artist_text \<and> titul_el blk = Some title_text \<longrightarrow>
      (scrape_onair_dynamic R (Some blk) = Inr None \<longleftrightarrow>
         join (lit '' '') (split_ws (str_lower R (strip title_text))) \<in> silence_patterns \<or>
         strip artist_text = [] \<or> strip title_text = []) \<and>
      (scrape_onair_dynamic R (Some blk) \<noteq> Inr None \<longrightarrow>
         scrape_onair_dynamic R (Some blk) =
           Inr (Some \<lparr>interpreters = strip artist_text, title = strip title_text\<rparr>))) \<and>
   (\<forall>rd a t stt ts.
      fst (now_playing R env st) = Song rd a t stt ts \<longrightarrow>
      a \<noteq> [] \<and> t \<noteq> [] \<and>
      join (lit '' '') (split_ws (str_lower R t)) \<notin> silence_patterns)"
proof (intro conjI allI impI)
  assume a: "interpret_el blk = Some artist_text \<and> titul_el blk = Some title_text"
  then have loc: "interpret_el blk = Some artist_text" "titul_el blk = Some title_text"
    by simp_all
  show "scrape_onair_dynamic R (Some blk) = Inr None \<longleftrightarrow>
         join (lit '' '') (split_ws (str_lower R (strip title_text))) \<in> silence_patterns \<or>
         strip artist_text = [] \<or> strip title_text = []"
    unfolding scrape_located[OF loc] by simp
  show "scrape_onair_dynamic R (Some blk) =
           Inr (Some \<lparr>interpreters = strip artist_text, title = strip title_text\<rparr>)"
    if "scrape_onair_dynamic R (Some blk) \<noteq> Inr None"
    using that unfolding scrape_located[OF loc] by (simp split: if_splits)
next
  fix rd a t stt ts
  assume "fst (now_playing R env st) = Song rd a t stt ts"
  from now_playing_Song[OF this] obtain pg oa where
    "scrape_onair_dynamic R pg = Inr (Some oa)" "a = interpreters oa" "t = title oa"
    by blast
  with scrape_Some[of R pg oa]
  have r: "a \<noteq> [] \<and> t \<noteq> [] \<and>
           join (lit '' '') (split_ws (str_lower R t)) \<notin> silence_patterns"
    by simp
  from r show "a \<noteq> []" by simp
  from r show "t \<noteq> []" by simp
  from r show "join (lit '' '') (split_ws (str_lower R t)) \<notin> silence_patterns" by simp
qed

theorem onair_candidate_iff_witness:
  "scrape_onair_dynamic ascii_runtime
     (Some \<lparr>interpret_el = Some (lit ''Beta''),
            titul_el = Some (lit '' NEHR'' @ [225] @ lit ''  '' @ [382] @
                             lit ''IADNA   pesni'' @ [269] @ lit ''ka '')\<rparr>) = Inr None \<and>
   scrape_onair_dynamic ascii_runtime
     (Some \<lparr>interpret_el = Some (lit '' Artist X ''), titul_el = Some (lit ''Song  Y'')\<rparr>) =
     Inr (Some \<lparr>interpreters = lit ''Artist X'', title = lit ''Song  Y''\<rparr>)"
proof -
  have a: "scrape_onair_dynamic ascii_runtime
     (Some \<lparr>interpret_el = Some (lit ''Beta''),
            titul_el = Some (lit '' NEHR'' @ [225] @ lit ''  '' @ [382] @
                             lit ''IADNA   pesni'' @ [269] @ lit ''ka '')\<rparr>) = Inr None"
    using onair_candidate_iff[of
        "\<lparr>interpret_el = Some (lit ''Beta''),
            titul_el = Some (lit '' NEHR'' @ [225] @ lit ''  '' @ [382] @
                             lit ''IADNA   pesni'' @ [269] @ lit ''ka '')\<rparr>"
        "lit ''Beta''"
        "lit '' NEHR'' @ [225] @ lit ''  '' @ [382] @ lit ''IADNA   pesni'' @ [269] @ lit ''ka ''"
        ascii_runtime]
    by (simp add: silence_patterns_def str_eval)
  have b: "scrape_onair_dynamic ascii_runtime
     (Some \<lparr>interpret_el = Some (lit '' Artist X ''), titul_el = Some (lit ''Song  Y'')\<rparr>) =
     Inr (Some \<lparr>interpreters = lit ''Artist X'', title = lit ''Song  Y''\<rparr>)"
    using onair_candidate_iff[of
        "\<lparr>interpret_el = Some (lit '' Artist X ''), titul_el = Some (lit ''Song  Y'')\<rparr>"
        "lit '' Artist X ''" "lit ''Song  Y''" ascii_runtime]
    by (simp add: silence_patterns_def str_eval)
  from a b show ?thesis by simp
qed

text \<open>
  C8 as first stated, with the title case-folded, fails on a title that spells the first
  silence phrase with a long s: case-folded it is the phrase, lower-cased it is not, and the
  function returns the candidate.
\<close>

theorem long_s_title_counterexample:
  "join (lit '' '')
     (split_ws (str_casefold long_s_runtime
        (strip (lit ''nehr'' @ [225] @ lit '' '' @ [382] @ lit ''iadna pe'' @ [383] @
                lit ''ni'' @ [269] @ lit ''ka''))))
     \<in> silence_patterns \<and>
   scrape_onair_dynamic long_s_runtime
     (Some \<lparr>interpret_el = Some (lit ''Beta''),
            titul_el = Some (lit ''nehr'' @ [225] @ lit '' '' @ [382] @ lit ''iadna pe'' @ [383] @
                             lit ''ni'' @ [269] @ lit ''ka'')\<rparr>) =
     Inr (Some \<lparr>interpreters = lit ''Beta'',
                title = lit ''nehr'' @ [225] @ lit '' '' @ [382] @ lit ''iadna pe'' @ [383] @
                        lit ''ni'' @ [269] @ lit ''ka''\<rparr>)"
  by (simp add: scrape_located silence_patterns_def long_s_runtime_def long_s_casefold_def
        lit_def strip_def strip_with_def py_isspace_def split_ws_def ascii_lower_def)

text \<open>
  C9 as first stated, with \<^verbatim>\<open>None\<close> and the message \<^verbatim>\<open>Nothing is playing right now.\<close> also for
  a block that never appears, fails on the page without the block.
\<close>

theorem absent_region_counterexample:
  "scrape_onair_dynamic ascii_runtime None = Inl TimeoutException \<and>
   scrape_onair_dynamic ascii_runtime None \<noteq> Inr None \<and>
   now_playing ascii_runtime
     \<lparr>np_now_utc = 99, driver_get = Inr None, requests_get = RequestException,
      now_local_time = \<lparr>t_hour = 14, t_minute = 7, t_second = 31, t_microsecond = 250,
                         t_tzinfo = None, t_fold = 0\<rparr>\<rparr>
     initial_state =
   (Silence RADIO_NAME False (lit ''Upstream page unavailable.'') 99,
    \<lparr>is_radio_playing = False, last_listeners = 0\<rparr>) \<and>
   fst (now_playing ascii_runtime
     \<lparr>np_now_utc = 99, driver_get = Inr None, requests_get = RequestException,
      now_local_time = \<lparr>t_hour = 14, t_minute = 7, t_second = 31, t_microsecond = 250,
                         t_tzinfo = None, t_fold = 0\<rparr>\<rparr>
     initial_state) \<noteq>
   Silence RADIO_NAME False (lit ''Nothing is playing right now.'') 99"
  by (simp add: scrape_onair_dynamic_def now_playing_def bind_exc_def initial_state_def lit_def)

text \<open>
  C9, amended. When the block does not appear within the wait, \<^verbatim>\<open>scrape_onair_dynamic\<close> raises
  \<^verbatim>\<open>TimeoutException\<close> and \<^verbatim>\<open>now_playing\<close> returns the \<^verbatim>\<open>Silence\<close> with the message
  \<^verbatim>\<open>Upstream page unavailable.\<close>; when the block is there and its artist or title \<^verbatim>\<open>span\<close> is
  not, \<^verbatim>\<open>scrape_onair_dynamic\<close> returns \<^verbatim>\<open>None\<close> and \<^verbatim>\<open>now_playing\<close> returns the \<^verbatim>\<open>Silence\<close> with
  the message \<^verbatim>\<open>Nothing is playing right now.\<close>; the flag is \<^verbatim>\<open>False\<close> after both.
\<close>

theorem absent_region_or_missing_fields:
  "scrape_onair_dynamic R None = Inl TimeoutException \<and>
   (driver_get env = Inr None \<longrightarrow>
      now_playing R env st =
        (Silence RADIO_NAME False (lit ''Upstream page unavailable.'') (np_now_utc env),
         st\<lparr>is_radio_playing := False\<rparr>)) \<and>
   (interpret_el blk = None \<or> titul_el blk = None \<longrightarrow>
      scrape_onair_dynamic R (Some blk) = Inr None \<and>
      (driver_get env = Inr (Some blk) \<longrightarrow>
         now_playing R env st =
           (Silence RADIO_NAME False (lit ''Nothing is playing right now.'') (np_now_utc env),
            st\<lparr>is_radio_playing := False\<rparr>)))"
proof (intro conjI impI)
  show t: "scrape_onair_dynamic R None = Inl TimeoutException"
    by (simp add: scrape_onair_dynamic_def)
  show "now_playing R env st =
        (Silence RADIO_NAME False (lit ''Upstream page unavailable.'') (np_now_utc env),
         st\<lparr>is_radio_playing := False\<rparr>)" if "driver_get env = Inr None"
    using that t by (intro now_playing_raised) simp
  assume m: "interpret_el blk = None \<or> titul_el blk = None"
  then show n: "scrape_onair_dynamic R (Some blk) = Inr None"
    by (auto simp: scrape_onair_dynamic_def split: option.splits)
  show "now_playing R env st =
           (Silence RADIO_NAME False (lit ''Nothing is playing right now.'') (np_now_utc env),
            st\<lparr>is_radio_playing := False\<rparr>)" if "driver_get env = Inr (Some blk)"
    using that n by (rule now_playing_no_candidate)
qed

theorem absent_region_or_missing_fields_witness:
  "scrape_onair_dynamic ascii_runtime
     (Some \<lparr>interpret_el = Some (lit ''Artist X''), titul_el = None\<rparr>) = Inr None \<and>
   now_playing ascii_runtime
     \<lparr>np_now_utc = 99,
      driver_get = Inr (Some \<lparr>interpret_el = Some (lit ''Artist X''), titul_el = None\<rparr>),
      requests_get = RequestException,
      now_local_time = \<lparr>t_hour = 14, t_minute = 7, t_second = 31, t_microsecond = 250,
                         t_tzinfo = None, t_fold = 0\<rparr>\<rparr>
     initial_state =
   (Silence RADIO_NAME False (lit ''Nothing is playing right now.'') 99,
    \<lparr>is_radio_playing = False, last_listeners = 0\<rparr>) \<and>
   now_playing ascii_runtime
     \<lparr>np_now_utc = 99, driver_get = Inr None, requests_get = RequestException,
      now_local_time = \<lparr>t_hour = 14, t_minute = 7, t_second = 31, t_microsecond = 250,
                         t_tzinfo = None, t_fold = 0\<rparr>\<rparr>
     initial_state =
   (Silence RADIO_NAME False (lit ''Upstream page unavailable.'') 99,
    \<lparr>is_radio_playing = False, last_listeners = 0\<rparr>)"
proof -
  let ?now = "\<lparr>t_hour = 14, t_minute = 7, t_second = 31, t_microsecond = 250,
               t_tzinfo = None, t_fold = 0\<rparr>"
  let ?blk = "\<lparr>interpret_el = Some (lit ''Artist X''), titul_el = None\<rparr>"
  let ?env1 = "\<lparr>np_now_utc = 99, driver_get = Inr (Some ?blk),
                requests_get = RequestException, now_local_time = ?now\<rparr>"
  let ?env2 = "\<lparr>np_now_utc = 99, driver_get = Inr None,
                requests_get = RequestException, now_local_time = ?now\<rparr>"
  note one = absent_region_or_missing_fields[where R = ascii_runtime and env = ?env1
      and st = initial_state and blk = ?blk]
  note two = absent_region_or_missing_fields[where R = ascii_runtime and env = ?env2
      and st = initial_state and blk = ?blk]
  have a: "scrape_onair_dynamic ascii_runtime (Some ?blk) = Inr None"
    using one by simp
  have b: "now_playing ascii_runtime ?env1 initial_state =
     (Silence RADIO_NAME False (lit ''Nothing is playing right now.'') 99,
      \<lparr>is_radio_playing = False, last_listeners = 0\<rparr>)"
    using one by (simp add: initial_state_def)
  have c: "now_playing ascii_runtime ?env2 initial_state =
     (Silence RADIO_NAME False (lit ''Upstream page unavailable.'') 99,
      \<lparr>is_radio_playing = False, last_listeners = 0\<rparr>)"
    using two by (simp add: initial_state_def)
  from a b c show ?thesis by simp
qed

subsection \<open>The flag changing twice between two ticks\<close>


end
